theory Spec2Isabelle
  imports Complex_Main "HOL-Library.Char_ord" "HOL-Library.List_Lexorder"
begin

section \<open>Values\<close>

text \<open>
  The values that cross the driver: property values of the graph store (strings, booleans,
  numbers), Python's \<open>None\<close> (Cypher's \<open>null\<close>), lists and dictionaries. A number is
  kept by its numeric value, whether the store holds it as an integer or as a float.
\<close>

datatype prim = PStr string | PBool bool | PNum rat

datatype val = VNull | VPrim prim | VList "val list" | VMap "(string \<times> val) list"

text \<open>
  \<open>ORDER BY\<close> compares values of any types: in ascending order strings come before
  booleans and booleans before numbers; strings are compared character by character,
  \<open>false\<close> comes before \<open>true\<close>, numbers are compared by value.
\<close>

instantiation prim :: linorder
begin

fun less_eq_prim :: "prim \<Rightarrow> prim \<Rightarrow> bool" where
  "less_eq_prim (PStr a) (PStr b) = (a \<le> b)"
| "less_eq_prim (PStr a) (PBool b) = True"
| "less_eq_prim (PStr a) (PNum b) = True"
| "less_eq_prim (PBool a) (PStr b) = False"
| "less_eq_prim (PBool a) (PBool b) = (a \<le> b)"
| "less_eq_prim (PBool a) (PNum b) = True"
| "less_eq_prim (PNum a) (PStr b) = False"
| "less_eq_prim (PNum a) (PBool b) = False"
| "less_eq_prim (PNum a) (PNum b) = (a \<le> b)"

definition less_prim :: "prim \<Rightarrow> prim \<Rightarrow> bool" where
  "less_prim x y = (x \<le> y \<and> \<not> y \<le> x)"

instance
proof
  fix x y z :: prim
  show "(x < y) = (x \<le> y \<and> \<not> y \<le> x)"
    by (simp add: less_prim_def)
  show "x \<le> x"
    by (cases x) simp_all
  show "x \<le> y \<Longrightarrow> y \<le> z \<Longrightarrow> x \<le> z"
    by (cases x; cases y; cases z) auto
  show "x \<le> y \<Longrightarrow> y \<le> x \<Longrightarrow> x = y"
    by (cases x; cases y) auto
  show "x \<le> y \<or> y \<le> x"
    by (cases x; cases y) auto
qed

end

datatype error = QueryError | ValueError

section \<open>The graph store\<close>

text \<open>
  A property graph: nodes with an identity, labels and properties, and typed, directed
  relationships between node identities. A property that a node does not have reads
  as \<open>null\<close>.
\<close>

record node =
  nid :: nat
  labels :: "string list"
  props :: "(string \<times> prim) list"

record rel =
  src :: nat
  rtype :: string
  dst :: nat

record graph =
  nodes :: "node list"
  rels :: "rel list"

definition has_label :: "string \<Rightarrow> node \<Rightarrow> bool" where
  "has_label l n = (l \<in> set (labels n))"

definition property :: "node \<Rightarrow> string \<Rightarrow> prim option" where
  "property n k = map_of (props n) k"

definition prop_val :: "node \<Rightarrow> string \<Rightarrow> val" where
  \<comment> \<open>the Cypher expression \<open>n.k\<close>\<close>
  "prop_val n k = (case property n k of None \<Rightarrow> VNull | Some p \<Rightarrow> VPrim p)"

definition cy_in :: "val \<Rightarrow> val list \<Rightarrow> val" where
  \<comment> \<open>the Cypher expression \<open>x IN ys\<close>, with its three truth values\<close>
  "cy_in x ys =
     (if ys = [] then VPrim (PBool False)
      else if x = VNull then VNull
      else if x \<in> set ys then VPrim (PBool True)
      else if VNull \<in> set ys then VNull
      else VPrim (PBool False))"

definition projection :: "node \<Rightarrow> (string \<times> val) list \<Rightarrow> val" where
  \<comment> \<open>the map projection \<open>n {.*, k1: v1, ...}\<close>: every property, then the computed entries\<close>
  "projection n extra =
     VMap ([(k, VPrim p). (k, p) \<leftarrow> props n, k \<notin> set (map fst extra)] @ extra)"

section \<open>The statements of the data-access object\<close>

type_synonym params = "(string \<times> val) list"
type_synonym row = "(string \<times> val) list"

definition movies_template :: string where
  "movies_template =
     ''\<newline>'' @
     ''                MATCH (m:Movie)\<newline>'' @
     ''                WHERE exists(m.`{0}`)\<newline>'' @
     ''                RETURN m {{\<newline>'' @
     ''                    .*,\<newline>'' @
     ''                    favorite: m.tmdbId IN $favorites\<newline>'' @
     ''                }} AS movie\<newline>'' @
     ''                ORDER BY m.`{0}` {1}\<newline>'' @
     ''                SKIP $skip\<newline>'' @
     ''                LIMIT $limit\<newline>'' @
     ''            ''"

definition genres_cypher :: string where
  "genres_cypher =
     ''\<newline>'' @
     ''                    MATCH (g:Genre)\<newline>'' @
     ''                    WHERE g.name <> '(no genres listed)'\<newline>'' @
     ''                    CALL {\<newline>'' @
     ''                        WITH g\<newline>'' @
     ''                        MATCH (g)<-[:IN_GENRE]-(m:Movie)\<newline>'' @
     ''                        WHERE m.imdbRating IS NOT NULL AND m.poster IS NOT NULL\<newline>'' @
     ''                        RETURN m.poster AS poster\<newline>'' @
     ''                        ORDER BY m.imdbRating DESC LIMIT 1\<newline>'' @
     ''                    }\<newline>'' @
     ''                    RETURN g {\<newline>'' @
     ''                        .*,\<newline>'' @
     ''                        movies: size((g)<-[:IN_GENRE]-(:Movie)),\<newline>'' @
     ''                        poster: poster\<newline>'' @
     ''                    } AS genre\<newline>'' @
     ''                    ORDER BY g.name ASC\<newline>'' @
     ''                ''"

definition favorites_cypher :: string where
  "favorites_cypher =
     ''\<newline>'' @
     ''            MATCH (u:User {userId: $userId})-[:HAS_FAVORITE]->(m)\<newline>'' @
     ''            RETURN m.tmdbId AS id\<newline>'' @
     ''        ''"

subsection \<open>\<open>str.format\<close>\<close>

text \<open>
  Python's \<open>str.format\<close> on positional string arguments: \<open>{{\<close> and \<open>}}\<close> stand for
  one brace, \<open>{d}\<close> with a digit \<open>d\<close> is replaced by the argument of that index, and the
  arguments themselves are copied as they are. A lone brace or an index beyond the arguments
  raises; the templates of this program use \<open>{0}\<close> and \<open>{1}\<close> only.
\<close>

definition field_index :: "char \<Rightarrow> nat option" where
  "field_index d =
     (if CHR ''0'' \<le> d \<and> d \<le> CHR ''9'' then Some (of_char d - of_char CHR ''0'') else None)"

fun py_format :: "string \<Rightarrow> string list \<Rightarrow> string option" where
  "py_format [] args = Some []"
| "py_format (c # cs) args =
     (if c = CHR ''{'' then
        (case cs of
           [] \<Rightarrow> None
         | d # cs' \<Rightarrow>
             if d = CHR ''{'' then map_option ((#) c) (py_format cs' args)
             else
               (case cs' of
                  [] \<Rightarrow> None
                | e # cs'' \<Rightarrow>
                    if e = CHR ''}'' then
                      (case field_index d of
                         None \<Rightarrow> None
                       | Some i \<Rightarrow>
                           if i < length args
                           then map_option ((@) (args ! i)) (py_format cs'' args)
                           else None)
                    else None))
      else if c = CHR ''}'' then
        (case cs of
           [] \<Rightarrow> None
         | d # cs' \<Rightarrow>
             if d = CHR ''}'' then map_option ((#) c) (py_format cs' args) else None)
      else map_option ((#) c) (py_format cs args))"

subsection \<open>What the statements compute\<close>

text \<open>
  The movie statement, clause by clause: \<open>MATCH (m:Movie) WHERE exists(m.`sort`)\<close> keeps
  the Movie nodes that have the property, each with its value; \<open>ORDER BY m.`sort`\<close> sorts
  them by that value, ascending or descending; \<open>SKIP\<close> drops rows, \<open>LIMIT\<close> keeps
  rows; \<open>RETURN\<close> gives one row per node, whose column \<open>movie\<close> holds the node's
  properties and the entry \<open>favorite\<close>. The order of rows with equal values is not
  fixed by Cypher; the model keeps them in store order.
\<close>

definition movies_matched :: "graph \<Rightarrow> string \<Rightarrow> (prim \<times> node) list" where
  "movies_matched g sort' =
     [(p, m). m \<leftarrow> nodes g, has_label ''Movie'' m, Some p \<leftarrow> [property m sort']]"

definition movies_ordered :: "graph \<Rightarrow> string \<Rightarrow> bool \<Rightarrow> (prim \<times> node) list" where
  "movies_ordered g sort' desc =
     (if desc then rev (sort_key fst (movies_matched g sort'))
      else sort_key fst (movies_matched g sort'))"

definition movie_row :: "val list \<Rightarrow> node \<Rightarrow> row" where
  "movie_row favorites m =
     [(''movie'', projection m [(''favorite'', cy_in (prop_val m ''tmdbId'') favorites)])]"

definition movies_statement ::
  "graph \<Rightarrow> string \<Rightarrow> bool \<Rightarrow> nat \<Rightarrow> nat \<Rightarrow> val list \<Rightarrow> row list" where
  "movies_statement g sort' desc skip limit favorites =
     map (\<lambda>(p, m). movie_row favorites m) (take limit (drop skip (movies_ordered g sort' desc)))"

text \<open>
  The favorites statement: one row for every \<open>HAS_FAVORITE\<close> relationship that leaves a
  User node whose \<open>userId\<close> equals the parameter; the column \<open>id\<close> is the \<open>tmdbId\<close> of
  the node it leads to.
\<close>

definition favorites_statement :: "graph \<Rightarrow> val \<Rightarrow> row list" where
  "favorites_statement g user_id =
     [[(''id'', prop_val m ''tmdbId'')].
        u \<leftarrow> nodes g, has_label ''User'' u, prop_val u ''userId'' = user_id, user_id \<noteq> VNull,
        r \<leftarrow> rels g, src r = nid u, rtype r = ''HAS_FAVORITE'',
        m \<leftarrow> nodes g, nid m = dst r]"

text \<open>
  The genre statement: for every Genre node whose name is not the sentinel, the subquery
  takes the Movie nodes related to it by \<open>IN_GENRE\<close> that have both a rating and a poster,
  sorts them by rating, descending, and keeps the first poster. A genre for which the
  subquery has no row has no row in the result.
\<close>

definition genre_members :: "graph \<Rightarrow> node \<Rightarrow> node list" where
  "genre_members g gn =
     [m. r \<leftarrow> rels g, rtype r = ''IN_GENRE'', dst r = nid gn,
         m \<leftarrow> nodes g, nid m = src r, has_label ''Movie'' m]"

definition rated_posters :: "graph \<Rightarrow> node \<Rightarrow> (prim \<times> prim) list" where
  "rated_posters g gn =
     [(rating, poster). m \<leftarrow> genre_members g gn,
        Some rating \<leftarrow> [property m ''imdbRating''], Some poster \<leftarrow> [property m ''poster'']]"

definition genre_poster :: "graph \<Rightarrow> node \<Rightarrow> prim option" where
  "genre_poster g gn =
     (case take 1 (rev (sort_key fst (rated_posters g gn))) of
        [] \<Rightarrow> None
      | (rating, poster) # _ \<Rightarrow> Some poster)"

definition genres_matched :: "graph \<Rightarrow> (prim \<times> node \<times> prim) list" where
  "genres_matched g =
     [(name, gn, poster). gn \<leftarrow> nodes g, has_label ''Genre'' gn,
        Some name \<leftarrow> [property gn ''name''], name \<noteq> PStr ''(no genres listed)'',
        Some poster \<leftarrow> [genre_poster g gn]]"

definition genres_statement :: "graph \<Rightarrow> row list" where
  "genres_statement g =
     map (\<lambda>(name, gn, poster).
            [(''genre'',
              projection gn
                [(''movies'', VPrim (PNum (of_nat (length (genre_members g gn))))),
                 (''poster'', VPrim poster)])])
       (sort_key fst (genres_matched g))"

section \<open>Transactions\<close>

text \<open>
  The transaction handle is the driver's: \<open>tx.run(text, parameters)\<close> answers with rows
  or raises. The statements that were run are recorded in a log, which every operation
  takes and returns, so that what a call sent to the database can be stated.
\<close>

type_synonym tx = "string \<Rightarrow> params \<Rightarrow> error + row list"
type_synonym log = "(string \<times> params) list"

definition tx_run :: "tx \<Rightarrow> string \<Rightarrow> params \<Rightarrow> log \<Rightarrow> (error + row list) \<times> log" where
  "tx_run tx cypher ps lg = (tx cypher ps, lg @ [(cypher, ps)])"

definition record_value :: "string \<Rightarrow> row \<Rightarrow> val" where
  \<comment> \<open>\<open>Record.value(key)\<close>: the value of the column, \<open>None\<close> when there is no such column\<close>
  "record_value k r = (case map_of r k of None \<Rightarrow> VNull | Some v \<Rightarrow> v)"

definition record_get :: "string \<Rightarrow> row \<Rightarrow> val" where
  \<comment> \<open>\<open>Record.get(key)\<close>\<close>
  "record_get k r = (case map_of r k of None \<Rightarrow> VNull | Some v \<Rightarrow> v)"

definition record_value0 :: "row \<Rightarrow> val" where
  \<comment> \<open>\<open>Record.value(0)\<close>: the value of the first column\<close>
  "record_value0 r = (case r of [] \<Rightarrow> VNull | (k, v) # _ \<Rightarrow> v)"

subsection \<open>A transaction on a graph store\<close>

text \<open>
  The database reads a text as the movie statement when it is the template with one plain
  property name in both quoted places and \<open>ASC\<close> or \<open>DESC\<close> as the direction.
  \<open>SKIP\<close> and \<open>LIMIT\<close> take non-negative integers. Any text other than the three
  statements of this program is answered with an error: the model says nothing about what
  the database does with it.
\<close>

definition name_chars :: string where
  "name_chars = ''abcdefghijklmnopqrstuvwxyzABCDEFGHIJKLMNOPQRSTUVWXYZ0123456789_''"

definition plain_name :: "string \<Rightarrow> bool" where
  "plain_name s = (s \<noteq> [] \<and> list_all (\<lambda>c. c \<in> set name_chars) s)"

definition read_movies_cypher :: "string \<Rightarrow> (string \<times> bool) option" where
  "read_movies_cypher q =
     (let head = takeWhile (\<lambda>c. c \<noteq> CHR 0x60) movies_template;
          name = takeWhile (\<lambda>c. c \<noteq> CHR 0x60) (drop (length head + 1) q)
      in if \<not> plain_name name then None
         else if py_format movies_template [name, ''ASC''] = Some q then Some (name, False)
         else if py_format movies_template [name, ''DESC''] = Some q then Some (name, True)
         else None)"

definition param_nat :: "params \<Rightarrow> string \<Rightarrow> nat option" where
  "param_nat ps k =
     (case map_of ps k of
        Some (VPrim (PNum r)) \<Rightarrow>
          if 0 \<le> r \<and> of_int \<lfloor>r\<rfloor> = r then Some (nat \<lfloor>r\<rfloor>) else None
      | _ \<Rightarrow> None)"

definition neo_tx :: "graph \<Rightarrow> tx" where
  "neo_tx g cypher ps =
     (if cypher = favorites_cypher then
        (case map_of ps ''userId'' of
           None \<Rightarrow> Inl QueryError
         | Some u \<Rightarrow> Inr (favorites_statement g u))
      else if cypher = genres_cypher then Inr (genres_statement g)
      else
        (case read_movies_cypher cypher of
           None \<Rightarrow> Inl QueryError
         | Some (name, desc) \<Rightarrow>
             (case (param_nat ps ''skip'', param_nat ps ''limit'', map_of ps ''favorites'') of
                (Some s, Some l, Some (VList favorites)) \<Rightarrow>
                  Inr (movies_statement g name desc s l favorites)
              | _ \<Rightarrow> Inl QueryError)))"

section \<open>The data-access object\<close>

text \<open>
  \<open>MovieDAO\<close>, method by method. \<open>session.execute_read(work, ...)\<close> calls the unit of
  work with a transaction; the model passes the transaction and the log. \<open>popular\<close> and
  \<open>goodfellas\<close> are the sample data of \<open>api.data\<close>, taken as parameters. Default
  values of arguments are filled in by the caller: every argument is explicit here.
\<close>

definition get_user_favorites :: "tx \<Rightarrow> val \<Rightarrow> log \<Rightarrow> (error + val list) \<times> log" where
  "get_user_favorites tx user_id lg =
     (if user_id = VNull then (Inr [], lg)
      else
        (case tx_run tx favorites_cypher [(''userId'', user_id)] lg of
           (Inl e, lg') \<Rightarrow> (Inl e, lg')
         | (Inr result, lg') \<Rightarrow> (Inr (map (record_get ''id'') result), lg')))"

definition get_movies ::
  "tx \<Rightarrow> string \<Rightarrow> string \<Rightarrow> int \<Rightarrow> int \<Rightarrow> val \<Rightarrow> log \<Rightarrow> (error + val list) \<times> log" where
  "get_movies tx sort' order limit skip user_id lg =
     (case get_user_favorites tx user_id lg of
        (Inl e, lg1) \<Rightarrow> (Inl e, lg1)
      | (Inr favorites, lg1) \<Rightarrow>
          (case py_format movies_template [sort', order] of
             None \<Rightarrow> (Inl ValueError, lg1)
           | Some cypher \<Rightarrow>
               (case tx_run tx cypher
                       [(''limit'', VPrim (PNum (of_int limit))),
                        (''skip'', VPrim (PNum (of_int skip))),
                        (''user_id'', user_id),
                        (''favorites'', VList favorites)] lg1 of
                  (Inl e, lg2) \<Rightarrow> (Inl e, lg2)
                | (Inr result, lg2) \<Rightarrow> (Inr (map (record_value ''movie'') result), lg2))))"

definition all ::
  "tx \<Rightarrow> string \<Rightarrow> string \<Rightarrow> int \<Rightarrow> int \<Rightarrow> val \<Rightarrow> log \<Rightarrow> (error + val list) \<times> log" where
  "all tx sort' order limit skip user_id lg = get_movies tx sort' order limit skip user_id lg"

text \<open>
  \<open>get_by_genre\<close> defines a local function \<open>all\<close>, the genre listing with its own unit
  of work, and ends without calling it: the method returns \<open>None\<close>.
\<close>

definition get_by_genre_all :: "tx \<Rightarrow> log \<Rightarrow> (error + val list) \<times> log" where
  "get_by_genre_all tx lg =
     (case tx_run tx genres_cypher [] lg of
        (Inl e, lg') \<Rightarrow> (Inl e, lg')
      | (Inr result, lg') \<Rightarrow> (Inr (map record_value0 result), lg'))"

definition get_by_genre ::
  "tx \<Rightarrow> val \<Rightarrow> string \<Rightarrow> string \<Rightarrow> int \<Rightarrow> int \<Rightarrow> val \<Rightarrow> log \<Rightarrow> val \<times> log" where
  "get_by_genre tx name sort' order limit skip user_id lg =
     (let all_local = get_by_genre_all tx in (VNull, lg))"

text \<open>
  Python's \<open>xs[start:stop]\<close> on integers: a negative index counts from the end, and both
  indices are clamped to the list.
\<close>

definition slice_index :: "nat \<Rightarrow> int \<Rightarrow> nat" where
  "slice_index n i = (if i < 0 then nat (int n + i) else min (nat i) n)"

definition py_slice :: "'a list \<Rightarrow> int \<Rightarrow> int \<Rightarrow> 'a list" where
  "py_slice xs start stop =
     (let lo = slice_index (length xs) start; hi = slice_index (length xs) stop
      in take (hi - lo) (drop lo xs))"

definition get_for_actor ::
  "val list \<Rightarrow> val \<Rightarrow> string \<Rightarrow> string \<Rightarrow> int \<Rightarrow> int \<Rightarrow> val \<Rightarrow> val list" where
  "get_for_actor popular id' sort' order limit skip user_id = py_slice popular skip limit"

definition get_for_director ::
  "val list \<Rightarrow> val \<Rightarrow> string \<Rightarrow> string \<Rightarrow> int \<Rightarrow> int \<Rightarrow> val \<Rightarrow> val list" where
  "get_for_director popular id' sort' order limit skip user_id = py_slice popular skip limit"

definition find_by_id :: "val \<Rightarrow> val \<Rightarrow> val \<Rightarrow> val" where
  "find_by_id goodfellas id' user_id = goodfellas"

definition get_similar_movies :: "val list \<Rightarrow> val \<Rightarrow> int \<Rightarrow> int \<Rightarrow> val \<Rightarrow> val list" where
  "get_similar_movies popular id' limit skip user_id = py_slice popular skip limit"

section \<open>Reading the returned records\<close>

definition field :: "val \<Rightarrow> string \<Rightarrow> val option" where
  \<comment> \<open>the entry of a returned dictionary\<close>
  "field m k = (case m of VMap kvs \<Rightarrow> map_of kvs k | _ \<Rightarrow> None)"

definition field_le :: "string \<Rightarrow> val \<Rightarrow> val \<Rightarrow> bool" where
  \<comment> \<open>both records have the field, and the first one's value is not above the second's\<close>
  "field_le k a b =
     (case (field a k, field b k) of
        (Some (VPrim p), Some (VPrim q)) \<Rightarrow> p \<le> q
      | _ \<Rightarrow> False)"

section \<open>The statement text of \<open>all\<close>\<close>

text \<open>
  The text that \<open>all\<close> sends, written out: the template with the sort field in both
  quoted places and the direction after the second.
\<close>

definition movies_cypher :: "string \<Rightarrow> string \<Rightarrow> string" where
  "movies_cypher sort' order =
     ''\<newline>'' @
     ''                MATCH (m:Movie)\<newline>'' @
     ''                WHERE exists(m.`'' @ sort' @ ''`)\<newline>'' @
     ''                RETURN m {\<newline>'' @
     ''                    .*,\<newline>'' @
     ''                    favorite: m.tmdbId IN $favorites\<newline>'' @
     ''                } AS movie\<newline>'' @
     ''                ORDER BY m.`'' @ sort' @ ''` '' @ order @ ''\<newline>'' @
     ''                SKIP $skip\<newline>'' @
     ''                LIMIT $limit\<newline>'' @
     ''            ''"

section \<open>The data model of the store\<close>

text \<open>
  A Movie is identified by its \<open>tmdbId\<close>: no two Movie nodes of the store share one.
  The attributes of the Movie nodes are the names of their properties.
\<close>

definition unique_tmdbIds :: "graph \<Rightarrow> bool" where
  "unique_tmdbIds g =
     distinct (map (\<lambda>m. property m ''tmdbId'') (filter (has_label ''Movie'') (nodes g)))"

definition movie_attributes :: "graph \<Rightarrow> string list" where
  "movie_attributes g = concat (map (\<lambda>m. map fst (props m)) (filter (has_label ''Movie'') (nodes g)))"

text \<open>
  A node is a favorite of a user when a \<open>HAS_FAVORITE\<close> relationship leads to it from a
  User node with that \<open>userId\<close>. A genre is listed when it has a name other than the
  sentinel and a member movie with both a rating and a poster.
\<close>

definition is_favorite :: "graph \<Rightarrow> val \<Rightarrow> node \<Rightarrow> bool" where
  "is_favorite g user_id m =
     (\<exists>u\<in>set (nodes g). has_label ''User'' u \<and> user_id \<noteq> VNull \<and> prop_val u ''userId'' = user_id \<and>
        (\<exists>r\<in>set (rels g). src r = nid u \<and> rtype r = ''HAS_FAVORITE'' \<and> nid m = dst r))"

definition listed_genre :: "graph \<Rightarrow> node \<Rightarrow> bool" where
  "listed_genre g gn =
     (has_label ''Genre'' gn \<and>
      (case property gn ''name'' of None \<Rightarrow> False | Some n \<Rightarrow> n \<noteq> PStr ''(no genres listed)'') \<and>
      rated_posters g gn \<noteq> [])"

section \<open>Sample data for the examples\<close>

definition goodfellas_node :: node where
  "goodfellas_node =
     \<lparr>nid = 1, labels = [''Movie''],
      props = [(''tmdbId'', PStr ''769''), (''title'', PStr ''Goodfellas''),
               (''year'', PNum 1990), (''imdbRating'', PNum 87),
               (''poster'', PStr ''goodfellas.jpg'')]\<rparr>"

definition godfather_node :: node where
  "godfather_node =
     \<lparr>nid = 2, labels = [''Movie''],
      props = [(''tmdbId'', PStr ''238''), (''title'', PStr ''The Godfather''),
               (''year'', PNum 1972), (''imdbRating'', PNum 92),
               (''poster'', PStr ''godfather.jpg'')]\<rparr>"

definition pulp_fiction_node :: node where
  "pulp_fiction_node =
     \<lparr>nid = 3, labels = [''Movie''],
      props = [(''tmdbId'', PStr ''680''), (''title'', PStr ''Pulp Fiction''),
               (''year'', PNum 1994), (''imdbRating'', PNum 93)]\<rparr>"

definition crime_node :: node where
  "crime_node = \<lparr>nid = 5, labels = [''Genre''], props = [(''name'', PStr ''Crime'')]\<rparr>"

definition western_node :: node where
  "western_node = \<lparr>nid = 6, labels = [''Genre''], props = [(''name'', PStr ''Western'')]\<rparr>"

definition sample_graph :: graph where
  "sample_graph =
     \<lparr>nodes =
        [goodfellas_node, godfather_node, pulp_fiction_node,
         \<lparr>nid = 4, labels = [''User''], props = [(''userId'', PStr ''u1'')]\<rparr>,
         crime_node, western_node,
         \<lparr>nid = 7, labels = [''Genre''], props = [(''name'', PStr ''(no genres listed)'')]\<rparr>],
      rels =
        [\<lparr>src = 4, rtype = ''HAS_FAVORITE'', dst = 2\<rparr>,
         \<lparr>src = 1, rtype = ''IN_GENRE'', dst = 5\<rparr>,
         \<lparr>src = 2, rtype = ''IN_GENRE'', dst = 5\<rparr>,
         \<lparr>src = 3, rtype = ''IN_GENRE'', dst = 5\<rparr>]\<rparr>"

lemmas sample_defs =
  sample_graph_def goodfellas_node_def godfather_node_def pulp_fiction_node_def
  crime_node_def western_node_def

definition three_movies :: "val list" where
  "three_movies =
     [VMap [(''tmdbId'', VPrim (PStr ''769''))],
      VMap [(''tmdbId'', VPrim (PStr ''238''))],
      VMap [(''tmdbId'', VPrim (PStr ''680''))]]"

section \<open>The methods that answer from the sample data\<close>

lemma slice_index_nonneg: "0 \<le> i \<Longrightarrow> slice_index n i = min (nat i) n"
  by (simp add: slice_index_def)

lemma py_slice_nonneg:
  "0 \<le> start \<Longrightarrow> 0 \<le> stop \<Longrightarrow>
   py_slice xs start stop = drop (nat start) (take (nat stop) xs)"
  by (simp add: py_slice_def slice_index_nonneg Let_def drop_take min_def)

lemma length_py_slice_nonneg:
  "0 \<le> start \<Longrightarrow> 0 \<le> stop \<Longrightarrow>
   int (length (py_slice xs start stop)) = max 0 (min stop (int (length xs)) - start)"
  by (simp add: py_slice_nonneg)

lemma py_slice_empty:
  "0 \<le> start \<Longrightarrow> 0 \<le> stop \<Longrightarrow> stop \<le> start \<Longrightarrow> py_slice xs start stop = []"
  by (simp add: py_slice_nonneg)

text \<open>
  Claim C7: for every input, \<open>get_by_genre\<close> runs no statement and returns \<open>None\<close>; its
  local function is defined and never called. Whatever the transaction would answer, the
  log of statements comes back as it went in.
\<close>

theorem get_by_genre_returns_none:
  "get_by_genre tx name sort' order limit skip user_id lg = (VNull, lg)"
  by (simp add: get_by_genre_def)

text \<open>
  Claim C8: for every id and every user, \<open>find_by_id\<close> returns the sample record
  \<open>goodfellas\<close>, whatever its arguments are.
\<close>

theorem find_by_id_fixed:
  "find_by_id goodfellas id1 user1 = goodfellas \<and>
   find_by_id goodfellas id1 user1 = find_by_id goodfellas id2 user2"
  by (simp add: find_by_id_def)

text \<open>
  Claim C9: two calls of \<open>get_for_actor\<close>, of \<open>get_for_director\<close> or of
  \<open>get_similar_movies\<close> that agree on \<open>skip\<close> and \<open>limit\<close> return the same list,
  whatever the id, the sort field, the direction and the user are.
\<close>

theorem stubs_independent:
  "get_for_actor popular id1 sort1 order1 limit skip user1 =
     get_for_actor popular id2 sort2 order2 limit skip user2 \<and>
   get_for_director popular id1 sort1 order1 limit skip user1 =
     get_for_director popular id2 sort2 order2 limit skip user2 \<and>
   get_similar_movies popular id1 limit skip user1 =
     get_similar_movies popular id2 limit skip user2"
  by (simp add: get_for_actor_def get_for_director_def get_similar_movies_def)

text \<open>
  Claim C10, as stated, gives the length \<open>max(0, min(limit, len(popular)) - skip)\<close> for
  every \<open>skip\<close> and \<open>limit\<close>, and the empty list whenever \<open>skip \<ge> limit\<close>. A negative
  index counts from the end of the list: with three sample records, \<open>skip = 0\<close> and
  \<open>limit = -1\<close>, the slice \<open>popular[0:-1]\<close> holds the first two records, although
  \<open>skip \<ge> limit\<close> and the formula gives 0.
\<close>

theorem stub_slice_counterexample:
  "get_for_actor three_movies VNull ''title'' ''ASC'' (- 1) 0 VNull =
     [VMap [(''tmdbId'', VPrim (PStr ''769''))], VMap [(''tmdbId'', VPrim (PStr ''238''))]] \<and>
   int (length (get_for_actor three_movies VNull ''title'' ''ASC'' (- 1) 0 VNull)) \<noteq>
     max 0 (min (- 1) (int (length three_movies)) - 0) \<and>
   (- 1 :: int) \<le> 0"
  by (simp add: get_for_actor_def py_slice_def slice_index_def three_movies_def)

text \<open>
  Claim C10, amended: for \<open>skip \<ge> 0\<close> and \<open>limit \<ge> 0\<close>, the three methods return
  \<open>popular[skip:limit]\<close>, the rows of index \<open>skip\<close> up to \<open>limit\<close>, not \<open>limit\<close> rows
  after the first \<open>skip\<close>; its length is \<open>max(0, min(limit, len(popular)) - skip)\<close>, and
  it is empty whenever \<open>skip \<ge> limit\<close>.
\<close>

theorem stub_slice:
  assumes "0 \<le> skip" and "0 \<le> limit"
  shows "get_for_actor popular id' sort' order limit skip user_id =
           drop (nat skip) (take (nat limit) popular) \<and>
         get_for_director popular id' sort' order limit skip user_id =
           drop (nat skip) (take (nat limit) popular) \<and>
         get_similar_movies popular id' limit skip user_id =
           drop (nat skip) (take (nat limit) popular) \<and>
         int (length (get_for_actor popular id' sort' order limit skip user_id)) =
           max 0 (min limit (int (length popular)) - skip) \<and>
         int (length (get_for_director popular id' sort' order limit skip user_id)) =
           max 0 (min limit (int (length popular)) - skip) \<and>
         int (length (get_similar_movies popular id' limit skip user_id)) =
           max 0 (min limit (int (length popular)) - skip) \<and>
         (limit \<le> skip \<longrightarrow>
            get_for_actor popular id' sort' order limit skip user_id = [] \<and>
            get_for_director popular id' sort' order limit skip user_id = [] \<and>
            get_similar_movies popular id' limit skip user_id = [])"
proof -
  have s: "py_slice popular skip limit = drop (nat skip) (take (nat limit) popular)"
    using assms by (rule py_slice_nonneg)
  have l: "int (length (py_slice popular skip limit)) =
             max 0 (min limit (int (length popular)) - skip)"
    using assms by (rule length_py_slice_nonneg)
  have e: "limit \<le> skip \<Longrightarrow> py_slice popular skip limit = []"
    using assms by (simp add: py_slice_empty)
  show ?thesis
    unfolding get_for_actor_def get_for_director_def get_similar_movies_def
    using s l e by blast
qed

theorem stub_slice_witness:
  "(0::int) \<le> 2 \<and> (0::int) \<le> 1 \<and> (1::int) \<le> 2 \<and>
   get_for_actor three_movies VNull ''title'' ''ASC'' 1 2 VNull = [] \<and>
   get_similar_movies three_movies VNull 2 1 VNull = [VMap [(''tmdbId'', VPrim (PStr ''238''))]] \<and>
   length (get_for_director three_movies VNull ''title'' ''ASC'' 2 1 VNull) = 1"
  using stub_slice [where skip = 2 and limit = 1 and popular = three_movies and id' = VNull
      and sort' = "''title''" and order = "''ASC''" and user_id = VNull]
    stub_slice [where skip = 1 and limit = 2 and popular = three_movies and id' = VNull
      and sort' = "''title''" and order = "''ASC''" and user_id = VNull]
  by (simp add: three_movies_def)

section \<open>The statement text and the database\<close>

lemma format_movies_template:
  "py_format movies_template [s, ord] = Some (movies_cypher s ord)"
  by (simp add: movies_template_def movies_cypher_def field_index_def)

lemma plain_name_no_backtick: "plain_name s \<Longrightarrow> CHR 0x60 \<notin> set s"
  by (auto simp: plain_name_def list_all_iff name_chars_def)

lemma quoted_name:
  assumes "CHR 0x60 \<notin> set s"
  shows "takeWhile (\<lambda>c. c \<noteq> CHR 0x60) (s @ CHR 0x60 # rest) = s"
  using assms by (induction s) auto

lemma movies_cypher_not_favorites: "movies_cypher s ord \<noteq> favorites_cypher"
  by (simp add: movies_cypher_def favorites_cypher_def)

lemma movies_cypher_not_genres: "movies_cypher s ord \<noteq> genres_cypher"
  by (simp add: movies_cypher_def genres_cypher_def)

lemma movies_cypher_asc_desc: "movies_cypher s ''ASC'' \<noteq> movies_cypher s ''DESC''"
  by (simp add: movies_cypher_def)

lemma name_of_movies_cypher:
  assumes "CHR 0x60 \<notin> set s"
  shows "takeWhile (\<lambda>c. c \<noteq> CHR 0x60)
           (drop (length (takeWhile (\<lambda>c. c \<noteq> CHR 0x60) movies_template) + 1)
              (movies_cypher s ord)) = s"
proof -
  have "drop (length (takeWhile (\<lambda>c. c \<noteq> CHR 0x60) movies_template) + 1)
          (movies_cypher s ord) =
        s @ CHR 0x60 # drop (length s + 1) (drop (length (takeWhile (\<lambda>c. c \<noteq> CHR 0x60) movies_template) + 1)
          (movies_cypher s ord))"
    by (simp add: movies_template_def movies_cypher_def)
  then show ?thesis
    using quoted_name [OF assms] by metis
qed

lemma read_movies_cypher:
  assumes "plain_name s"
  shows "read_movies_cypher (movies_cypher s ''ASC'') = Some (s, False)"
    and "read_movies_cypher (movies_cypher s ''DESC'') = Some (s, True)"
proof -
  have nb: "CHR 0x60 \<notin> set s"
    using assms by (rule plain_name_no_backtick)
  show "read_movies_cypher (movies_cypher s ''ASC'') = Some (s, False)"
    unfolding read_movies_cypher_def Let_def name_of_movies_cypher [OF nb]
    using assms by (simp add: format_movies_template)
  show "read_movies_cypher (movies_cypher s ''DESC'') = Some (s, True)"
    unfolding read_movies_cypher_def Let_def name_of_movies_cypher [OF nb]
    using assms movies_cypher_asc_desc [of s] by (simp add: format_movies_template)
qed


lemma param_nat_of_int:
  assumes "map_of ps k = Some (VPrim (PNum (of_int i)))" and "0 \<le> i"
  shows "param_nat ps k = Some (nat i)"
  using assms by (simp add: param_nat_def)

lemma get_user_favorites_neo_tx:
  "get_user_favorites (neo_tx g) user_id lg =
     (if user_id = VNull then (Inr [], lg)
      else (Inr (map (record_get ''id'') (favorites_statement g user_id)),
            lg @ [(favorites_cypher, [(''userId'', user_id)])]))"
  by (simp add: get_user_favorites_def tx_run_def neo_tx_def)

lemma neo_tx_movies:
  assumes "plain_name s" and "ord = ''ASC'' \<or> ord = ''DESC''" and "0 \<le> limit" and "0 \<le> skip"
  shows "neo_tx g (movies_cypher s ord)
           [(''limit'', VPrim (PNum (of_int limit))), (''skip'', VPrim (PNum (of_int skip))),
            (''user_id'', user_id), (''favorites'', VList favs)] =
         Inr (movies_statement g s (ord = ''DESC'') (nat skip) (nat limit) favs)"
proof -
  have r: "read_movies_cypher (movies_cypher s ord) = Some (s, ord = ''DESC'')"
    using assms(1,2) read_movies_cypher [of s] by auto
  have l: "param_nat [(''limit'', VPrim (PNum (of_int limit))), (''skip'', VPrim (PNum (of_int skip))),
            (''user_id'', user_id), (''favorites'', VList favs)] ''limit'' = Some (nat limit)"
    using assms(3) by (intro param_nat_of_int) simp_all
  have k: "param_nat [(''limit'', VPrim (PNum (of_int limit))), (''skip'', VPrim (PNum (of_int skip))),
            (''user_id'', user_id), (''favorites'', VList favs)] ''skip'' = Some (nat skip)"
    using assms(4) by (intro param_nat_of_int) simp_all
  show ?thesis
    unfolding neo_tx_def
    by (simp only: r l k movies_cypher_not_favorites movies_cypher_not_genres if_False
        option.case prod.case) simp
qed

lemma all_neo_tx:
  assumes "plain_name s" and "ord = ''ASC'' \<or> ord = ''DESC''" and "0 \<le> limit" and "0 \<le> skip"
    and "get_user_favorites (neo_tx g) user_id lg = (Inr favs, lg1)"
  shows "all (neo_tx g) s ord limit skip user_id lg =
           (Inr (map (record_value ''movie'')
                   (movies_statement g s (ord = ''DESC'') (nat skip) (nat limit) favs)),
            lg1 @ [(movies_cypher s ord,
                    [(''limit'', VPrim (PNum (of_int limit))), (''skip'', VPrim (PNum (of_int skip))),
                     (''user_id'', user_id), (''favorites'', VList favs)])])"
  by (simp add: all_def get_movies_def assms(5) format_movies_template tx_run_def
      neo_tx_movies [OF assms(1-4)])

lemma all_unfolded:
  "all tx sort' order limit skip user_id lg =
     (case get_user_favorites tx user_id lg of
        (Inl e, lg1) \<Rightarrow> (Inl e, lg1)
      | (Inr favorites, lg1) \<Rightarrow>
          (case tx (movies_cypher sort' order)
                  [(''limit'', VPrim (PNum (of_int limit))), (''skip'', VPrim (PNum (of_int skip))),
                   (''user_id'', user_id), (''favorites'', VList favorites)] of
             Inl e \<Rightarrow> Inl e
           | Inr result \<Rightarrow> Inr (map (record_value ''movie'') result),
           lg1 @ [(movies_cypher sort' order,
                   [(''limit'', VPrim (PNum (of_int limit))), (''skip'', VPrim (PNum (of_int skip))),
                    (''user_id'', user_id), (''favorites'', VList favorites)])]))"
  by (simp add: all_def get_movies_def format_movies_template tx_run_def
      split: prod.splits sum.splits)

section \<open>The rows of the movie statement\<close>

lemma map_of_props_except:
  "map_of [(k, VPrim p). (k, p) \<leftarrow> ps, k \<notin> K] x =
     (if x \<in> K then None else map_option VPrim (map_of ps x))"
  by (induction ps) auto

lemma field_projection:
  "field (projection n extra) k =
     (case map_of extra k of
        Some v \<Rightarrow> Some v
      | None \<Rightarrow> map_option VPrim (property n k))"
proof (cases "map_of extra k")
  case None
  then have "k \<notin> set (map fst extra)"
    by (simp add: map_of_eq_None_iff)
  with None show ?thesis
    by (simp add: field_def projection_def property_def map_of_props_except map_add_def
        split: option.splits)
next
  case (Some v)
  then have "k \<in> set (map fst extra)"
    by (metis map_of_eq_None_iff option.distinct(1) set_map)
  with Some show ?thesis
    by (simp add: field_def projection_def map_of_props_except map_add_def)
qed

lemma record_value_movie_row: "record_value ''movie'' (movie_row favs m) =
    projection m [(''favorite'', cy_in (prop_val m ''tmdbId'') favs)]"
  by (simp add: record_value_def movie_row_def)

lemma matched_snd:
  "map snd [(p, m). m \<leftarrow> ns, has_label ''Movie'' m, Some p \<leftarrow> [property m s]] =
     filter (\<lambda>m. has_label ''Movie'' m \<and> property m s \<noteq> None) ns"
  by (induction ns) (auto split: option.splits)

lemma movies_matched_snd:
  "map snd (movies_matched g s) =
     filter (\<lambda>m. has_label ''Movie'' m \<and> property m s \<noteq> None) (nodes g)"
  unfolding movies_matched_def by (rule matched_snd)

lemma movies_matched_key:
  "(p, m) \<in> set (movies_matched g s) \<Longrightarrow> property m s = Some p"
  by (auto simp: movies_matched_def split: option.splits)

lemma set_movies_ordered: "set (movies_ordered g s desc) = set (movies_matched g s)"
  by (simp add: movies_ordered_def)

lemma movies_ordered_sorted:
  "sorted_wrt (\<lambda>a b. if desc then fst b \<le> fst a else fst a \<le> fst b) (movies_ordered g s desc)"
proof -
  have "sorted (map fst (sort_key fst (movies_matched g s)))"
    by (rule sorted_sort_key)
  then have a: "sorted_wrt (\<lambda>a b. fst a \<le> fst b) (sort_key fst (movies_matched g s))"
    by (simp add: sorted_map)
  then have "sorted_wrt (\<lambda>a b. fst b \<le> fst a) (rev (sort_key fst (movies_matched g s)))"
    by (simp add: sorted_wrt_rev)
  with a show ?thesis
    by (simp add: movies_ordered_def)
qed

lemma movies_ordered_distinct:
  assumes "unique_tmdbIds g"
  shows "distinct (map (\<lambda>(p, m). property m ''tmdbId'') (movies_ordered g s desc))"
proof -
  have "distinct (map (\<lambda>m. property m ''tmdbId'')
          (filter (\<lambda>m. has_label ''Movie'' m \<and> property m s \<noteq> None) (nodes g)))"
  proof -
    have "filter (\<lambda>m. has_label ''Movie'' m \<and> property m s \<noteq> None) (nodes g) =
          filter (\<lambda>m. property m s \<noteq> None) (filter (has_label ''Movie'') (nodes g))"
      by (simp add: conj_commute)
    moreover have "distinct (map (\<lambda>m. property m ''tmdbId'')
        (filter (\<lambda>m. property m s \<noteq> None) (filter (has_label ''Movie'') (nodes g))))"
      using assms unfolding unique_tmdbIds_def by (rule distinct_map_filter)
    ultimately show ?thesis
      by (simp only:)
  qed
  then have "distinct (map (\<lambda>m. property m ''tmdbId'') (map snd (movies_matched g s)))"
    by (simp only: movies_matched_snd)
  then have m: "distinct (map (\<lambda>(p, m). property m ''tmdbId'') (movies_matched g s))"
    by (simp add: case_prod_unfold comp_def)
  from m have d: "distinct (movies_matched g s)"
    and i: "inj_on (\<lambda>(p, m). property m ''tmdbId'') (set (movies_matched g s))"
    by (simp_all add: distinct_map)
  show ?thesis
    using d i by (simp add: movies_ordered_def distinct_map)
qed

lemma movie_records:
  "map (record_value ''movie'') (movies_statement g s desc sk lm favs) =
     map (\<lambda>(p, m). projection m [(''favorite'', cy_in (prop_val m ''tmdbId'') favs)])
       (take lm (drop sk (movies_ordered g s desc)))"
  by (simp add: movies_statement_def record_value_movie_row case_prod_unfold)

lemma page_sorted:
  "sorted_wrt (\<lambda>a b. if desc then fst b \<le> fst a else fst a \<le> fst b)
     (take lm (drop sk (movies_ordered g s desc)))"
  by (intro sorted_wrt_take sorted_wrt_drop movies_ordered_sorted)

lemma page_distinct:
  assumes "unique_tmdbIds g"
  shows "distinct (map (\<lambda>(p, m). property m ''tmdbId'')
           (take lm (drop sk (movies_ordered g s desc))))"
  using movies_ordered_distinct [OF assms, of s desc]
  by (simp add: take_map [symmetric] drop_map [symmetric] distinct_take distinct_drop)

lemma page_key:
  assumes "(p, m) \<in> set (take lm (drop sk (movies_ordered g s desc)))"
  shows "property m s = Some p"
proof -
  have "(p, m) \<in> set (movies_ordered g s desc)"
    using assms by (meson in_set_dropD in_set_takeD)
  then show ?thesis
    by (simp add: set_movies_ordered movies_matched_key)
qed

lemma records_sorted:
  assumes "s \<noteq> ''favorite''"
  shows "sorted_wrt (\<lambda>a b. if desc then field_le s b a else field_le s a b)
           (map (\<lambda>(p, m). projection m [(''favorite'', cy_in (prop_val m ''tmdbId'') favs)])
              (take lm (drop sk (movies_ordered g s desc))))"
proof -
  let ?page = "take lm (drop sk (movies_ordered g s desc))"
  let ?f = "\<lambda>(p, m). projection m [(''favorite'', cy_in (prop_val m ''tmdbId'') favs)]"
  have key: "field (?f a) s = Some (VPrim (fst a))" if "a \<in> set ?page" for a
  proof -
    obtain p m where a: "a = (p, m)" by (cases a)
    with that have "property m s = Some p" by (simp add: page_key)
    with a assms show ?thesis by (simp add: field_projection)
  qed
  have "sorted_wrt (\<lambda>a b. if desc then field_le s (?f b) (?f a) else field_le s (?f a) (?f b)) ?page"
  proof (rule sorted_wrt_mono_rel [OF _ page_sorted])
    fix a b
    assume "a \<in> set ?page" and "b \<in> set ?page"
      and "if desc then fst b \<le> fst a else fst a \<le> fst b"
    then show "if desc then field_le s (?f b) (?f a) else field_le s (?f a) (?f b)"
      using key [of a] key [of b] by (simp add: field_le_def split: if_splits)
  qed
  then show ?thesis
    by (simp add: sorted_wrt_map)
qed

lemma records_distinct:
  assumes "unique_tmdbIds g"
  shows "distinct (map (\<lambda>r. field r ''tmdbId'')
           (map (\<lambda>(p, m). projection m [(''favorite'', cy_in (prop_val m ''tmdbId'') favs)])
              (take lm (drop sk (movies_ordered g s desc)))))"
proof -
  let ?page = "take lm (drop sk (movies_ordered g s desc))"
  let ?ids = "map (\<lambda>(p, m). property m ''tmdbId'') ?page"
  have d: "distinct ?ids"
    using assms by (rule page_distinct)
  have "inj (map_option VPrim)"
    by (rule option.inj_map) (simp add: inj_def)
  then have i: "inj_on (map_option VPrim) (set ?ids)"
    by (rule inj_on_subset) simp
  have "distinct (map (map_option VPrim) ?ids)"
    using d i distinct_map [of "map_option VPrim" ?ids] by blast
  then show ?thesis
    by (simp add: field_projection case_prod_unfold comp_def)
qed

lemma all_neo_tx_records:
  assumes "plain_name s" and "ord = ''ASC'' \<or> ord = ''DESC''" and "0 \<le> limit" and "0 \<le> skip"
  shows "\<exists>favs lg1 lg2.
           get_user_favorites (neo_tx g) user_id lg = (Inr favs, lg1) \<and>
           all (neo_tx g) s ord limit skip user_id lg =
             (Inr (map (\<lambda>(p, m). projection m [(''favorite'', cy_in (prop_val m ''tmdbId'') favs)])
                     (take (nat limit) (drop (nat skip) (movies_ordered g s (ord = ''DESC''))))),
              lg2)"
proof -
  obtain favs lg1 where f: "get_user_favorites (neo_tx g) user_id lg = (Inr favs, lg1)"
    by (cases "user_id = VNull") (simp_all add: get_user_favorites_neo_tx)
  show ?thesis
    using all_neo_tx [OF assms f] f by (simp add: movie_records)
qed

lemma plain_nosuch: "plain_name ''nosuch''"
  by (simp add: plain_name_def name_chars_def)

lemma sample_unique: "unique_tmdbIds sample_graph"
  by (simp add: unique_tmdbIds_def sample_defs has_label_def property_def)

lemma plain_year: "plain_name ''year''"
  by (simp add: plain_name_def name_chars_def)

lemma sample_favorites:
  "get_user_favorites (neo_tx sample_graph) (VPrim (PStr ''u1'')) [] =
     (Inr [VPrim (PStr ''238'')], [(favorites_cypher, [(''userId'', VPrim (PStr ''u1''))])])"
  by (simp add: get_user_favorites_neo_tx favorites_statement_def sample_defs
      has_label_def prop_val_def property_def record_get_def)

lemma sample_labels:
  "has_label ''Movie'' goodfellas_node" "has_label ''Movie'' godfather_node"
  "has_label ''Movie'' pulp_fiction_node"
  "\<not> has_label ''Movie'' crime_node" "\<not> has_label ''Movie'' western_node"
  by (simp_all add: sample_defs has_label_def)

lemma sample_years:
  "property goodfellas_node ''year'' = Some (PNum 1990)"
  "property godfather_node ''year'' = Some (PNum 1972)"
  "property pulp_fiction_node ''year'' = Some (PNum 1994)"
  by (simp_all add: sample_defs property_def)

lemma sample_ordered:
  "movies_ordered sample_graph ''year'' True =
     [(PNum 1994, pulp_fiction_node), (PNum 1990, goodfellas_node), (PNum 1972, godfather_node)]"
proof -
  have "movies_matched sample_graph ''year'' =
          [(PNum 1990, goodfellas_node), (PNum 1972, godfather_node),
           (PNum 1994, pulp_fiction_node)]"
    by (simp add: movies_matched_def sample_graph_def sample_labels sample_years)
       (simp add: has_label_def)
  then show ?thesis
    by (simp add: movies_ordered_def)
qed

lemma sample_flags:
  "cy_in (prop_val goodfellas_node ''tmdbId'') [VPrim (PStr ''238'')] = VPrim (PBool False)"
  "cy_in (prop_val godfather_node ''tmdbId'') [VPrim (PStr ''238'')] = VPrim (PBool True)"
  by (simp_all add: sample_defs cy_in_def prop_val_def property_def)

lemma sample_call:
  "all (neo_tx sample_graph) ''year'' ''DESC'' 2 1 (VPrim (PStr ''u1'')) [] =
     (Inr [projection goodfellas_node [(''favorite'', VPrim (PBool False))],
           projection godfather_node [(''favorite'', VPrim (PBool True))]],
      [(favorites_cypher, [(''userId'', VPrim (PStr ''u1''))]),
       (movies_cypher ''year'' ''DESC'',
        [(''limit'', VPrim (PNum 2)), (''skip'', VPrim (PNum 1)),
         (''user_id'', VPrim (PStr ''u1'')), (''favorites'', VList [VPrim (PStr ''238'')])])])"
  using all_neo_tx [OF plain_year _ _ _ sample_favorites, of "''DESC''" 2 1]
  by (simp add: movie_records sample_ordered sample_flags)

section \<open>\<open>all\<close>\<close>

text \<open>
  Claim C1, as stated, has every call with a sort field outside the Movie attributes, or a
  direction other than \<open>ASC\<close> and \<open>DESC\<close>, rejected before a statement text is built or
  run. On the sample store, which has no attribute \<open>nosuch\<close>, the call with that sort
  field is not rejected: the text is built, the statement is run, and the call returns the
  empty list. With the direction \<open>SIDEWAYS\<close> the text is built and run as well.
\<close>

theorem all_unvalidated_counterexample:
  "''nosuch'' \<notin> set (movie_attributes sample_graph) \<and>
   all (neo_tx sample_graph) ''nosuch'' ''ASC'' 6 0 VNull [] =
     (Inr [],
      [(movies_cypher ''nosuch'' ''ASC'',
        [(''limit'', VPrim (PNum 6)), (''skip'', VPrim (PNum 0)),
         (''user_id'', VNull), (''favorites'', VList [])])]) \<and>
   ''SIDEWAYS'' \<notin> {''ASC'', ''DESC''} \<and>
   snd (all (neo_tx sample_graph) ''title'' ''SIDEWAYS'' 6 0 VNull []) =
     [(movies_cypher ''title'' ''SIDEWAYS'',
        [(''limit'', VPrim (PNum 6)), (''skip'', VPrim (PNum 0)),
         (''user_id'', VNull), (''favorites'', VList [])])]"
proof -
  have a: "''nosuch'' \<notin> set (movie_attributes sample_graph)"
    by (simp add: movie_attributes_def sample_defs has_label_def)
  have f: "get_user_favorites (neo_tx sample_graph) VNull [] = (Inr [], [])"
    by (simp add: get_user_favorites_def)
  have m: "movies_statement sample_graph ''nosuch'' False 0 6 [] = []"
    by (simp add: movies_statement_def movies_ordered_def movies_matched_def sample_defs
        has_label_def property_def)
  have b: "all (neo_tx sample_graph) ''nosuch'' ''ASC'' 6 0 VNull [] =
     (Inr [],
      [(movies_cypher ''nosuch'' ''ASC'',
        [(''limit'', VPrim (PNum 6)), (''skip'', VPrim (PNum 0)),
         (''user_id'', VNull), (''favorites'', VList [])])])"
    using all_neo_tx [OF plain_nosuch _ _ _ f, of "''ASC''" 6 0] m by simp
  have c: "snd (all (neo_tx sample_graph) ''title'' ''SIDEWAYS'' 6 0 VNull []) =
     [(movies_cypher ''title'' ''SIDEWAYS'',
        [(''limit'', VPrim (PNum 6)), (''skip'', VPrim (PNum 0)),
         (''user_id'', VNull), (''favorites'', VList [])])]"
    by (simp add: all_unfolded f)
  show ?thesis
    using a b c by simp
qed

text \<open>
  Claim C1, amended: \<open>all\<close> checks neither the sort field nor the direction. Whatever they
  are, once the favorites have been read it copies both into the statement text as they are
  and runs that statement; the call fails only when the transaction raises, in the favorites
  lookup or in the movie statement.
\<close>

theorem all_runs_any_sort_order:
  "all tx sort' order limit skip user_id lg =
     (case get_user_favorites tx user_id lg of
        (Inl e, lg1) \<Rightarrow> (Inl e, lg1)
      | (Inr favorites, lg1) \<Rightarrow>
          (case tx (movies_cypher sort' order)
                  [(''limit'', VPrim (PNum (of_int limit))), (''skip'', VPrim (PNum (of_int skip))),
                   (''user_id'', user_id), (''favorites'', VList favorites)] of
             Inl e \<Rightarrow> Inl e
           | Inr result \<Rightarrow> Inr (map (record_value ''movie'') result),
           lg1 @ [(movies_cypher sort' order,
                   [(''limit'', VPrim (PNum (of_int limit))), (''skip'', VPrim (PNum (of_int skip))),
                    (''user_id'', user_id), (''favorites'', VList favorites)])]))"
  by (rule all_unfolded)

text \<open>
  Claim C2: for every valid sort field and every direction in \<open>ASC\<close>, \<open>DESC\<close>, the call
  \<open>all(sort, order, limit, skip)\<close> returns at most \<open>limit\<close> records, sorted on the sort
  field, non-decreasing for \<open>ASC\<close> and non-increasing for \<open>DESC\<close>, and no two of them
  have the same \<open>tmdbId\<close>. A valid sort field is a plain attribute name other than the
  computed entry \<open>favorite\<close>; \<open>limit\<close> and \<open>skip\<close> are non-negative, as the statement
  requires; the store is one of the data model, where \<open>tmdbId\<close> identifies a Movie.
\<close>

theorem all_page_sorted_distinct:
  assumes "plain_name sort'" and "sort' \<noteq> ''favorite''"
    and "order = ''ASC'' \<or> order = ''DESC''"
    and "0 \<le> limit" and "0 \<le> skip"
    and "unique_tmdbIds g"
  shows "\<exists>rs lg'.
           all (neo_tx g) sort' order limit skip user_id lg = (Inr rs, lg') \<and>
           length rs \<le> nat limit \<and>
           (order = ''ASC'' \<longrightarrow> sorted_wrt (\<lambda>a b. field_le sort' a b) rs) \<and>
           (order = ''DESC'' \<longrightarrow> sorted_wrt (\<lambda>a b. field_le sort' b a) rs) \<and>
           distinct (map (\<lambda>r. field r ''tmdbId'') rs)"
proof -
  obtain favs lg1 lg2 where
    a: "all (neo_tx g) sort' order limit skip user_id lg =
          (Inr (map (\<lambda>(p, m). projection m [(''favorite'', cy_in (prop_val m ''tmdbId'') favs)])
                  (take (nat limit) (drop (nat skip) (movies_ordered g sort' (order = ''DESC''))))),
           lg2)"
    using all_neo_tx_records [OF assms(1,3,4,5)] by blast
  let ?rs = "map (\<lambda>(p, m). projection m [(''favorite'', cy_in (prop_val m ''tmdbId'') favs)])
               (take (nat limit) (drop (nat skip) (movies_ordered g sort' (order = ''DESC''))))"
  have l: "length ?rs \<le> nat limit"
    by simp
  have s: "sorted_wrt (\<lambda>a b. if order = ''DESC'' then field_le sort' b a else field_le sort' a b) ?rs"
    using assms(2) by (rule records_sorted)
  have d: "distinct (map (\<lambda>r. field r ''tmdbId'') ?rs)"
    using assms(6) by (rule records_distinct)
  have s1: "order = ''ASC'' \<Longrightarrow> sorted_wrt (\<lambda>a b. field_le sort' a b) ?rs"
    using s by simp
  have s2: "order = ''DESC'' \<Longrightarrow> sorted_wrt (\<lambda>a b. field_le sort' b a) ?rs"
    using s by simp
  show ?thesis
    using a l s1 s2 d by blast
qed

theorem all_page_sorted_distinct_witness:
  "plain_name ''year'' \<and> ''year'' \<noteq> ''favorite'' \<and> (0::int) \<le> 2 \<and> (0::int) \<le> 1 \<and>
   unique_tmdbIds sample_graph \<and>
   (\<exists>rs lg'.
      all (neo_tx sample_graph) ''year'' ''DESC'' 2 1 (VPrim (PStr ''u1'')) [] = (Inr rs, lg') \<and>
      length rs \<le> 2 \<and>
      sorted_wrt (\<lambda>a b. field_le ''year'' b a) rs \<and>
      distinct (map (\<lambda>r. field r ''tmdbId'') rs))"
  using all_page_sorted_distinct [where sort' = "''year''" and order = "''DESC''" and limit = 2
      and skip = 1 and g = sample_graph and user_id = "VPrim (PStr ''u1'')" and lg = "[]"]
    sample_unique plain_year
  by simp

section \<open>Favorites\<close>

lemma favorites_statement_ids:
  "set (map (record_get ''id'') (favorites_statement g user_id)) =
     {prop_val m ''tmdbId'' | m. m \<in> set (nodes g) \<and> is_favorite g user_id m}"
proof -
  have "row \<in> set (favorites_statement g user_id) \<longleftrightarrow>
          (\<exists>m\<in>set (nodes g). is_favorite g user_id m \<and> row = [(''id'', prop_val m ''tmdbId'')])"
    for row
    unfolding favorites_statement_def is_favorite_def by auto
  then have "set (favorites_statement g user_id) =
               (\<lambda>m. [(''id'', prop_val m ''tmdbId'')]) ` {m \<in> set (nodes g). is_favorite g user_id m}"
    by blast
  then show ?thesis
    by (auto simp: record_get_def image_image)
qed

lemma neo_tx_movies_rows:
  assumes "neo_tx g (movies_cypher s ord)
             [(''limit'', VPrim (PNum (of_int limit))), (''skip'', VPrim (PNum (of_int skip))),
              (''user_id'', user_id), (''favorites'', VList favs)] = Inr result"
  shows "\<exists>name desc. result = movies_statement g name desc (nat skip) (nat limit) favs"
  using assms
  by (auto simp: neo_tx_def movies_cypher_not_favorites movies_cypher_not_genres param_nat_def
      split: option.splits prod.splits val.splits if_splits)

lemma all_neo_tx_rows:
  assumes "all (neo_tx g) s ord limit skip user_id lg = (Inr rs, lg')"
  shows "\<exists>favs lg1 name desc.
           get_user_favorites (neo_tx g) user_id lg = (Inr favs, lg1) \<and>
           rs = map (record_value ''movie'')
                  (movies_statement g name desc (nat skip) (nat limit) favs)"
proof -
  obtain fr lg1 where f: "get_user_favorites (neo_tx g) user_id lg = (fr, lg1)"
    by (cases "get_user_favorites (neo_tx g) user_id lg")
  show ?thesis
  proof (cases fr)
    case (Inl e)
    with f assms show ?thesis by (simp add: all_unfolded)
  next
    case (Inr favs)
    with f assms obtain result where
      r: "neo_tx g (movies_cypher s ord)
             [(''limit'', VPrim (PNum (of_int limit))), (''skip'', VPrim (PNum (of_int skip))),
              (''user_id'', user_id), (''favorites'', VList favs)] = Inr result"
      and rs: "rs = map (record_value ''movie'') result"
      by (auto simp: all_unfolded split: sum.splits)
    from neo_tx_movies_rows [OF r] rs f Inr show ?thesis by blast
  qed
qed

lemma record_in_statement:
  assumes "m \<in> set (map (record_value ''movie'') (movies_statement g name desc sk lm favs))"
  shows "\<exists>n. m = projection n [(''favorite'', cy_in (prop_val n ''tmdbId'') favs)]"
  using assms by (auto simp: movie_records)

lemma favorite_of_record:
  "field (projection n [(''favorite'', x)]) ''favorite'' = Some x"
  by (simp add: field_projection)

lemma tmdbId_of_record:
  assumes "field (projection n [(''favorite'', x)]) ''tmdbId'' = Some t"
  shows "prop_val n ''tmdbId'' = t \<and> t \<noteq> VNull"
  using assms by (auto simp: field_projection prop_val_def)

lemma cy_in_member:
  assumes "t \<noteq> VNull" and "VNull \<notin> set favs"
  shows "cy_in t favs = VPrim (PBool (t \<in> set favs))"
  using assms by (auto simp: cy_in_def)

text \<open>
  Claim C3: for a user whose favorites are \<open>F\<close>, every returned movie \<open>m\<close> has
  \<open>m.favorite = (m.tmdbId \<in> F)\<close>; with no user, \<open>favorite\<close> is \<open>false\<close> on every
  returned record. \<open>F\<close> is what \<open>get_user_favorites\<close> returns for the user, a set of
  \<open>tmdbId\<close> values (no \<open>None\<close> among them), and \<open>m.tmdbId\<close> is read on the records
  that have one.
\<close>

theorem favorite_flag:
  assumes "all (neo_tx g) sort' order limit skip user_id lg = (Inr rs, lg')"
    and "get_user_favorites (neo_tx g) user_id lg = (Inr favs, lg1)"
  shows "(VNull \<notin> set favs \<longrightarrow>
            (\<forall>m\<in>set rs. \<forall>t. field m ''tmdbId'' = Some t \<longrightarrow>
               field m ''favorite'' = Some (VPrim (PBool (t \<in> set favs))))) \<and>
         (user_id = VNull \<longrightarrow>
            (\<forall>m\<in>set rs. field m ''favorite'' = Some (VPrim (PBool False))))"
proof -
  obtain name desc where
    rs: "rs = map (record_value ''movie'')
                (movies_statement g name desc (nat skip) (nat limit) favs)"
    using all_neo_tx_rows [OF assms(1)] assms(2) by auto
  have a: "field m ''favorite'' = Some (VPrim (PBool (t \<in> set favs)))"
    if nn: "VNull \<notin> set favs" and mem: "m \<in> set rs" and tm: "field m ''tmdbId'' = Some t" for m t
  proof -
    obtain n where m: "m = projection n [(''favorite'', cy_in (prop_val n ''tmdbId'') favs)]"
      using mem rs record_in_statement by blast
    with tm have "prop_val n ''tmdbId'' = t \<and> t \<noteq> VNull"
      by (simp add: tmdbId_of_record)
    with nn m show ?thesis
      by (simp add: favorite_of_record cy_in_member)
  qed
  have b: "field m ''favorite'' = Some (VPrim (PBool False))"
    if nu: "user_id = VNull" and mem: "m \<in> set rs" for m
  proof -
    have "favs = []"
      using assms(2) nu by (simp add: get_user_favorites_def)
    moreover obtain n where "m = projection n [(''favorite'', cy_in (prop_val n ''tmdbId'') favs)]"
      using mem rs record_in_statement by blast
    ultimately show ?thesis
      by (simp add: favorite_of_record cy_in_def)
  qed
  show ?thesis
    using a b by blast
qed


theorem favorite_flag_witness:
  "all (neo_tx sample_graph) ''year'' ''DESC'' 2 1 (VPrim (PStr ''u1'')) [] =
     (Inr [projection goodfellas_node [(''favorite'', VPrim (PBool False))],
           projection godfather_node [(''favorite'', VPrim (PBool True))]],
      [(favorites_cypher, [(''userId'', VPrim (PStr ''u1''))]),
       (movies_cypher ''year'' ''DESC'',
        [(''limit'', VPrim (PNum 2)), (''skip'', VPrim (PNum 1)),
         (''user_id'', VPrim (PStr ''u1'')), (''favorites'', VList [VPrim (PStr ''238'')])])]) \<and>
   get_user_favorites (neo_tx sample_graph) (VPrim (PStr ''u1'')) [] =
     (Inr [VPrim (PStr ''238'')], [(favorites_cypher, [(''userId'', VPrim (PStr ''u1''))])]) \<and>
   VNull \<notin> set [VPrim (PStr ''238'')] \<and>
   field (projection godfather_node [(''favorite'', VPrim (PBool True))]) ''tmdbId'' =
     Some (VPrim (PStr ''238'')) \<and>
   field (projection godfather_node [(''favorite'', VPrim (PBool True))]) ''favorite'' =
     Some (VPrim (PBool (VPrim (PStr ''238'') \<in> set [VPrim (PStr ''238'')]))) \<and>
   field (projection goodfellas_node [(''favorite'', VPrim (PBool False))]) ''tmdbId'' =
     Some (VPrim (PStr ''769'')) \<and>
   field (projection goodfellas_node [(''favorite'', VPrim (PBool False))]) ''favorite'' =
     Some (VPrim (PBool (VPrim (PStr ''769'') \<in> set [VPrim (PStr ''238'')])))"
proof -
  have t1: "field (projection godfather_node [(''favorite'', VPrim (PBool True))]) ''tmdbId'' =
     Some (VPrim (PStr ''238''))"
    by (simp add: field_projection property_def godfather_node_def)
  have t2: "field (projection goodfellas_node [(''favorite'', VPrim (PBool False))]) ''tmdbId'' =
     Some (VPrim (PStr ''769''))"
    by (simp add: field_projection property_def goodfellas_node_def)
  have n: "VNull \<notin> set [VPrim (PStr ''238'')]"
    by simp
  from favorite_flag [OF sample_call sample_favorites] n
  have ff: "\<forall>m\<in>set [projection goodfellas_node [(''favorite'', VPrim (PBool False))],
                    projection godfather_node [(''favorite'', VPrim (PBool True))]].
              \<forall>t. field m ''tmdbId'' = Some t \<longrightarrow>
                field m ''favorite'' = Some (VPrim (PBool (t \<in> set [VPrim (PStr ''238'')])))"
    by blast
  have f1: "field (projection godfather_node [(''favorite'', VPrim (PBool True))]) ''favorite'' =
     Some (VPrim (PBool (VPrim (PStr ''238'') \<in> set [VPrim (PStr ''238'')])))"
    using ff t1 by (meson list.set_intros)
  have f2: "field (projection goodfellas_node [(''favorite'', VPrim (PBool False))]) ''favorite'' =
     Some (VPrim (PBool (VPrim (PStr ''769'') \<in> set [VPrim (PStr ''238'')])))"
    using ff t2 by (meson list.set_intros)
  show ?thesis
    using sample_call sample_favorites n t1 t2 f1 f2 by blast
qed

text \<open>
  Claim C4: \<open>get_user_favorites\<close> returns the empty list for the user \<open>None\<close>, running
  no statement and raising nothing, whatever the transaction is; for any other user it runs
  the favorites statement and returns, as a set, exactly the \<open>tmdbId\<close> values of the
  nodes that the user's \<open>HAS_FAVORITE\<close> relationships lead to: of the movies so linked,
  when these relationships lead to Movie nodes only.
\<close>

theorem get_user_favorites_set:
  "get_user_favorites tx VNull lg = (Inr [], lg) \<and>
   (user_id \<noteq> VNull \<longrightarrow>
      (\<exists>ids. get_user_favorites (neo_tx g) user_id lg =
               (Inr ids, lg @ [(favorites_cypher, [(''userId'', user_id)])]) \<and>
             set ids = {prop_val m ''tmdbId'' | m. m \<in> set (nodes g) \<and> is_favorite g user_id m} \<and>
             ((\<forall>m\<in>set (nodes g). is_favorite g user_id m \<longrightarrow> has_label ''Movie'' m) \<longrightarrow>
                set ids = {prop_val m ''tmdbId'' | m.
                             m \<in> set (nodes g) \<and> has_label ''Movie'' m \<and> is_favorite g user_id m})))"
proof -
  have a: "get_user_favorites tx VNull lg = (Inr [], lg)"
    by (simp add: get_user_favorites_def)
  have b: "get_user_favorites (neo_tx g) user_id lg =
             (Inr (map (record_get ''id'') (favorites_statement g user_id)),
              lg @ [(favorites_cypher, [(''userId'', user_id)])])"
    if "user_id \<noteq> VNull"
    using that by (simp add: get_user_favorites_neo_tx)
  have c: "{prop_val m ''tmdbId'' | m. m \<in> set (nodes g) \<and> is_favorite g user_id m} =
           {prop_val m ''tmdbId'' | m.
              m \<in> set (nodes g) \<and> has_label ''Movie'' m \<and> is_favorite g user_id m}"
    if "\<forall>m\<in>set (nodes g). is_favorite g user_id m \<longrightarrow> has_label ''Movie'' m"
    using that by blast
  show ?thesis
    using a b c favorites_statement_ids [of g user_id] by auto
qed

lemma sample_is_favorite:
  "m \<in> set (nodes sample_graph) \<Longrightarrow>
   is_favorite sample_graph (VPrim (PStr ''u1'')) m \<longleftrightarrow> m = godfather_node"
  by (auto simp: is_favorite_def sample_defs has_label_def prop_val_def property_def)

theorem get_user_favorites_set_witness:
  "VPrim (PStr ''u1'') \<noteq> VNull \<and>
   get_user_favorites (neo_tx sample_graph) (VPrim (PStr ''u1'')) [] =
     (Inr [VPrim (PStr ''238'')], [(favorites_cypher, [(''userId'', VPrim (PStr ''u1''))])]) \<and>
   set [VPrim (PStr ''238'')] =
     {prop_val m ''tmdbId'' | m.
        m \<in> set (nodes sample_graph) \<and> has_label ''Movie'' m \<and>
        is_favorite sample_graph (VPrim (PStr ''u1'')) m}"
proof -
  have h: "\<forall>m\<in>set (nodes sample_graph).
      is_favorite sample_graph (VPrim (PStr ''u1'')) m \<longrightarrow> has_label ''Movie'' m"
    by (simp add: sample_is_favorite sample_labels)
  show ?thesis
    using get_user_favorites_set [of "neo_tx sample_graph" "[]" "VPrim (PStr ''u1'')" sample_graph]
      h sample_favorites
    by auto
qed

text \<open>
  Claim C5: for \<open>skip \<ge> 0\<close> and \<open>limit \<ge> 0\<close>, a returned list has at most \<open>limit\<close>
  records, for every method that returns a list: \<open>all\<close>, \<open>get_for_actor\<close>,
  \<open>get_for_director\<close> and \<open>get_similar_movies\<close> (\<open>get_by_genre\<close> returns \<open>None\<close> and
  \<open>find_by_id\<close> one record). For \<open>all\<close>: with a plain sort field and a direction \<open>ASC\<close>
  or \<open>DESC\<close> the call returns, and whenever the database answers with rows there are at
  most \<open>limit\<close> of them.
\<close>

theorem result_size:
  assumes "0 \<le> skip" and "0 \<le> limit"
  shows "(plain_name sort' \<and> (order = ''ASC'' \<or> order = ''DESC'') \<longrightarrow>
            (\<exists>rs lg'. all (neo_tx g) sort' order limit skip user_id lg = (Inr rs, lg'))) \<and>
         (\<forall>rs lg'. all (neo_tx g) sort' order limit skip user_id lg = (Inr rs, lg') \<longrightarrow>
            length rs \<le> nat limit) \<and>
         length (get_for_actor popular id' sort' order limit skip user_id) \<le> nat limit \<and>
         length (get_for_director popular id' sort' order limit skip user_id) \<le> nat limit \<and>
         length (get_similar_movies popular id' limit skip user_id) \<le> nat limit"
proof -
  have a: "\<exists>rs lg'. all (neo_tx g) sort' order limit skip user_id lg = (Inr rs, lg')"
    if "plain_name sort'" and "order = ''ASC'' \<or> order = ''DESC''"
    using all_neo_tx_records [OF that assms(2,1)] by blast
  have b: "length rs \<le> nat limit"
    if "all (neo_tx g) sort' order limit skip user_id lg = (Inr rs, lg')" for rs lg'
    using all_neo_tx_rows [OF that] by (auto simp: movies_statement_def)
  have c: "length (py_slice popular skip limit) \<le> nat limit"
    using assms by (simp add: py_slice_nonneg)
  show ?thesis
    using a b c
    by (simp add: get_for_actor_def get_for_director_def get_similar_movies_def)
qed

theorem result_size_witness:
  "(0::int) \<le> 1 \<and> (0::int) \<le> 2 \<and> plain_name ''year'' \<and>
   all (neo_tx sample_graph) ''year'' ''DESC'' 2 1 (VPrim (PStr ''u1'')) [] =
     (Inr [projection goodfellas_node [(''favorite'', VPrim (PBool False))],
           projection godfather_node [(''favorite'', VPrim (PBool True))]],
      [(favorites_cypher, [(''userId'', VPrim (PStr ''u1''))]),
       (movies_cypher ''year'' ''DESC'',
        [(''limit'', VPrim (PNum 2)), (''skip'', VPrim (PNum 1)),
         (''user_id'', VPrim (PStr ''u1'')), (''favorites'', VList [VPrim (PStr ''238'')])])]) \<and>
   length [projection goodfellas_node [(''favorite'', VPrim (PBool False))],
           projection godfather_node [(''favorite'', VPrim (PBool True))]] \<le> nat 2 \<and>
   length (get_for_actor three_movies VNull ''year'' ''DESC'' 2 1 (VPrim (PStr ''u1''))) \<le> nat 2"
  using result_size [where skip = 1 and limit = 2 and sort' = "''year''" and order = "''DESC''"
      and g = sample_graph and user_id = "VPrim (PStr ''u1'')" and lg = "[]"
      and popular = three_movies and id' = VNull]
    sample_call plain_year
  by simp

section \<open>The genre listing\<close>

lemma genre_poster_None: "genre_poster g gn = None \<longleftrightarrow> rated_posters g gn = []"
proof (cases "rev (sort_key fst (rated_posters g gn))")
  case Nil
  then have "set (rated_posters g gn) = {}"
    by (metis set_empty set_rev set_sort)
  with Nil show ?thesis by (simp add: genre_poster_def)
next
  case (Cons a as)
  then have "rated_posters g gn \<noteq> []" by auto
  with Cons show ?thesis by (simp add: genre_poster_def split: prod.splits)
qed

lemma genre_poster_max:
  assumes "genre_poster g gn = Some poster"
  shows "\<exists>rating. (rating, poster) \<in> set (rated_posters g gn) \<and>
           (\<forall>(rating', poster') \<in> set (rated_posters g gn). rating' \<le> rating)"
proof (cases "rev (sort_key fst (rated_posters g gn))")
  case Nil
  with assms show ?thesis by (simp add: genre_poster_def)
next
  case (Cons a as)
  obtain rating p where a: "a = (rating, p)" by (cases a)
  with Cons assms have p: "p = poster" by (simp add: genre_poster_def)
  have "sorted (map fst (sort_key fst (rated_posters g gn)))"
    by (rule sorted_sort_key)
  then have "sorted_wrt (\<lambda>x y. fst y \<le> fst x) (rev (sort_key fst (rated_posters g gn)))"
    by (simp add: sorted_map sorted_wrt_rev)
  with Cons a have le: "\<forall>y\<in>set as. fst y \<le> rating" by simp
  have s: "set (rated_posters g gn) = insert (rating, p) (set as)"
    using Cons a by (metis list.simps(15) set_rev set_sort)
  have "(rating, poster) \<in> set (rated_posters g gn)"
    using s p by simp
  moreover have "\<forall>(rating', poster') \<in> set (rated_posters g gn). rating' \<le> rating"
    using le s by auto
  ultimately show ?thesis
    by blast
qed

lemma in_genres_matched:
  "(name, gn, poster) \<in> set (genres_matched g) \<longleftrightarrow>
     gn \<in> set (nodes g) \<and> has_label ''Genre'' gn \<and> property gn ''name'' = Some name \<and>
     name \<noteq> PStr ''(no genres listed)'' \<and> genre_poster g gn = Some poster"
  by (auto simp: genres_matched_def split: option.splits)


lemma genres_not_favorites: "genres_cypher \<noteq> favorites_cypher"
  by (simp add: genres_cypher_def favorites_cypher_def)

lemma get_by_genre_all_neo_tx:
  "get_by_genre_all (neo_tx g) lg =
     (Inr (map (\<lambda>(name, gn, poster).
                  projection gn
                    [(''movies'', VPrim (PNum (of_nat (length (genre_members g gn))))),
                     (''poster'', VPrim poster)])
             (sort_key fst (genres_matched g))),
      lg @ [(genres_cypher, [])])"
  by (simp add: get_by_genre_all_def tx_run_def neo_tx_def genres_not_favorites
      genres_statement_def record_value0_def case_prod_unfold comp_def)

lemma genre_record_fields:
  "field (projection gn [(''movies'', c), (''poster'', p)]) ''name'' =
     map_option VPrim (property gn ''name'')"
  "field (projection gn [(''movies'', c), (''poster'', p)]) ''poster'' = Some p"
  "field (projection gn [(''movies'', c), (''poster'', p)]) ''movies'' = Some c"
  by (simp_all add: field_projection)

lemma listed_genre_matched:
  "gn \<in> set (nodes g) \<and> listed_genre g gn \<longleftrightarrow>
     (\<exists>name poster. (name, gn, poster) \<in> set (genres_matched g))"
proof -
  have "rated_posters g gn \<noteq> [] \<longleftrightarrow> (\<exists>poster. genre_poster g gn = Some poster)"
    using genre_poster_None [of g gn] by auto
  then show ?thesis
    by (auto simp: in_genres_matched listed_genre_def split: option.splits)
qed

lemma genres_sorted:
  "sorted_wrt (field_le ''name'')
     (map (\<lambda>(name, gn, poster). projection gn [(''movies'', c gn), (''poster'', VPrim poster)])
        (sort_key fst (genres_matched g)))"
proof -
  let ?f = "\<lambda>(name, gn, poster). projection gn [(''movies'', c gn), (''poster'', VPrim poster)]"
  have key: "field (?f a) ''name'' = Some (VPrim (fst a))"
    if "a \<in> set (sort_key fst (genres_matched g))" for a
  proof -
    obtain name gn poster where a: "a = (name, gn, poster)" by (cases a)
    with that have "property gn ''name'' = Some name" by (simp add: in_genres_matched)
    with a show ?thesis by (simp add: genre_record_fields)
  qed
  have "sorted (map fst (sort_key fst (genres_matched g)))"
    by (rule sorted_sort_key)
  then have "sorted_wrt (\<lambda>a b. fst a \<le> fst b) (sort_key fst (genres_matched g))"
    by (simp add: sorted_map)
  then have "sorted_wrt (\<lambda>a b. field_le ''name'' (?f a) (?f b)) (sort_key fst (genres_matched g))"
  proof (rule sorted_wrt_mono_rel [rotated])
    fix a b
    assume "a \<in> set (sort_key fst (genres_matched g))" and "b \<in> set (sort_key fst (genres_matched g))"
      and "fst a \<le> fst b"
    then show "field_le ''name'' (?f a) (?f b)"
      using key [of a] key [of b] by (simp add: field_le_def)
  qed
  then show ?thesis
    by (simp add: sorted_wrt_map)
qed

lemma genre_records_mem:
  "r \<in> set (map (\<lambda>(name, gn, poster). F gn poster) (sort_key fst (genres_matched g))) \<longleftrightarrow>
     (\<exists>name gn poster. (name, gn, poster) \<in> set (genres_matched g) \<and> r = F gn poster)"
proof
  assume "r \<in> set (map (\<lambda>(name, gn, poster). F gn poster) (sort_key fst (genres_matched g)))"
  then obtain x where x: "x \<in> set (genres_matched g)"
    and r: "r = (\<lambda>(name, gn, poster). F gn poster) x"
    by auto
  obtain name gn poster where "x = (name, gn, poster)"
    by (cases x)
  with x r show "\<exists>name gn poster. (name, gn, poster) \<in> set (genres_matched g) \<and> r = F gn poster"
    by auto
next
  assume "\<exists>name gn poster. (name, gn, poster) \<in> set (genres_matched g) \<and> r = F gn poster"
  then obtain name gn poster where x: "(name, gn, poster) \<in> set (genres_matched g)"
    and r: "r = F gn poster"
    by blast
  have "(\<lambda>(name, gn, poster). F gn poster) (name, gn, poster) \<in>
          (\<lambda>(name, gn, poster). F gn poster) ` set (genres_matched g)"
    using x by (rule imageI)
  with r show "r \<in> set (map (\<lambda>(name, gn, poster). F gn poster) (sort_key fst (genres_matched g)))"
    by simp
qed

lemma sample_members:
  "genre_members sample_graph crime_node = [goodfellas_node, godfather_node, pulp_fiction_node]"
  "genre_members sample_graph western_node = []"
  by (simp_all add: genre_members_def sample_graph_def sample_labels)
     (simp_all add: sample_defs has_label_def)

lemma sample_ratings:
  "property goodfellas_node ''imdbRating'' = Some (PNum 87)"
  "property godfather_node ''imdbRating'' = Some (PNum 92)"
  "property pulp_fiction_node ''imdbRating'' = Some (PNum 93)"
  "property goodfellas_node ''poster'' = Some (PStr ''goodfellas.jpg'')"
  "property godfather_node ''poster'' = Some (PStr ''godfather.jpg'')"
  "property pulp_fiction_node ''poster'' = None"
  by (simp_all add: sample_defs property_def)

lemma sample_rated_posters:
  "rated_posters sample_graph crime_node =
     [(PNum 87, PStr ''goodfellas.jpg''), (PNum 92, PStr ''godfather.jpg'')]"
  "rated_posters sample_graph western_node = []"
  by (simp_all add: rated_posters_def sample_members sample_ratings)

lemma sample_posters:
  "genre_poster sample_graph crime_node = Some (PStr ''godfather.jpg'')"
  "genre_poster sample_graph western_node = None"
  by (simp_all add: genre_poster_def sample_rated_posters)

lemma sample_genres_matched:
  "genres_matched sample_graph = [(PStr ''Crime'', crime_node, PStr ''godfather.jpg'')]"
proof -
  have l: "has_label ''Genre'' crime_node" "has_label ''Genre'' western_node"
    "\<not> has_label ''Genre'' goodfellas_node" "\<not> has_label ''Genre'' godfather_node"
    "\<not> has_label ''Genre'' pulp_fiction_node"
    by (simp_all add: sample_defs has_label_def)
  have n: "property crime_node ''name'' = Some (PStr ''Crime'')"
    "property western_node ''name'' = Some (PStr ''Western'')"
    by (simp_all add: sample_defs property_def)
  have ns: "nodes sample_graph =
      [goodfellas_node, godfather_node, pulp_fiction_node,
       \<lparr>nid = 4, labels = [''User''], props = [(''userId'', PStr ''u1'')]\<rparr>,
       crime_node, western_node,
       \<lparr>nid = 7, labels = [''Genre''], props = [(''name'', PStr ''(no genres listed)'')]\<rparr>]"
    by (simp add: sample_graph_def)
  show ?thesis
    unfolding genres_matched_def ns
    by (simp add: l n sample_posters) (simp add: has_label_def property_def)
qed

text \<open>
  Claim C6, as stated, has the genre listing return every genre but the sentinel, each with
  the poster of its highest-rated member movie. On the sample store the genre Western, which
  has no movie, is not returned; and the genre Crime is returned with the poster of
  The Godfather (rating 92), while its highest-rated member, Pulp Fiction (rating 93), has
  no poster.
\<close>

theorem genre_listing_counterexample:
  "get_by_genre_all (neo_tx sample_graph) [] =
     (Inr [VMap [(''name'', VPrim (PStr ''Crime'')), (''movies'', VPrim (PNum 3)),
                 (''poster'', VPrim (PStr ''godfather.jpg''))]],
      [(genres_cypher, [])]) \<and>
   western_node \<in> set (nodes sample_graph) \<and> has_label ''Genre'' western_node \<and>
   property western_node ''name'' = Some (PStr ''Western'') \<and>
   genre_members sample_graph crime_node = [goodfellas_node, godfather_node, pulp_fiction_node] \<and>
   property goodfellas_node ''imdbRating'' = Some (PNum 87) \<and>
   property godfather_node ''imdbRating'' = Some (PNum 92) \<and>
   property pulp_fiction_node ''imdbRating'' = Some (PNum 93) \<and>
   property godfather_node ''poster'' = Some (PStr ''godfather.jpg'') \<and>
   property pulp_fiction_node ''poster'' = None"
proof -
  have "get_by_genre_all (neo_tx sample_graph) [] =
     (Inr [VMap [(''name'', VPrim (PStr ''Crime'')), (''movies'', VPrim (PNum 3)),
                 (''poster'', VPrim (PStr ''godfather.jpg''))]],
      [(genres_cypher, [])])"
    by (simp add: get_by_genre_all_neo_tx sample_genres_matched sample_members)
       (simp add: projection_def crime_node_def)
  moreover have "western_node \<in> set (nodes sample_graph)"
    by (simp add: sample_graph_def)
  moreover have "has_label ''Genre'' western_node"
    and "property western_node ''name'' = Some (PStr ''Western'')"
    by (simp_all add: western_node_def has_label_def property_def)
  ultimately show ?thesis
    by (simp add: sample_members sample_ratings)
qed

text \<open>
  Claim C6, amended: the genre listing (the local function of \<open>get_by_genre\<close>) returns,
  ordered by name, the genres that have a name other than the sentinel
  \<open>(no genres listed)\<close> and at least one member movie with both a rating and a poster; the
  poster of each returned genre is that of a highest-rated one among these member movies.
\<close>

theorem genre_listing:
  "\<exists>rs. get_by_genre_all (neo_tx g) lg = (Inr rs, lg @ [(genres_cypher, [])]) \<and>
     (\<forall>r\<in>set rs. field r ''name'' \<noteq> Some (VPrim (PStr ''(no genres listed)''))) \<and>
     (\<forall>gn\<in>set (nodes g). listed_genre g gn \<longrightarrow>
        (\<exists>r\<in>set rs. field r ''name'' = Some (prop_val gn ''name''))) \<and>
     (\<forall>r\<in>set rs. \<exists>gn\<in>set (nodes g).
        listed_genre g gn \<and> field r ''name'' = Some (prop_val gn ''name'') \<and>
        (\<exists>(rating, poster)\<in>set (rated_posters g gn).
           field r ''poster'' = Some (VPrim poster) \<and>
           (\<forall>(rating', poster')\<in>set (rated_posters g gn). rating' \<le> rating))) \<and>
     sorted_wrt (field_le ''name'') rs"
proof -
  define genre_record where
    "genre_record gn poster =
       projection gn [(''movies'', VPrim (PNum (of_nat (length (genre_members g gn))))),
                      (''poster'', VPrim poster)]" for gn poster
  define rs where
    "rs = map (\<lambda>(name, gn, poster). genre_record gn poster) (sort_key fst (genres_matched g))"
  have call: "get_by_genre_all (neo_tx g) lg = (Inr rs, lg @ [(genres_cypher, [])])"
    unfolding rs_def genre_record_def by (rule get_by_genre_all_neo_tx)
  have mem: "r \<in> set rs \<longleftrightarrow>
               (\<exists>name gn poster. (name, gn, poster) \<in> set (genres_matched g) \<and>
                  r = genre_record gn poster)" for r
    unfolding rs_def by (rule genre_records_mem)
  have name: "field (genre_record gn poster) ''name'' = Some (prop_val gn ''name'')"
    if "(name, gn, poster) \<in> set (genres_matched g)" for name gn poster
    using that by (simp add: genre_record_def genre_record_fields prop_val_def in_genres_matched)
  have poster: "field (genre_record gn poster) ''poster'' = Some (VPrim poster)" for gn poster
    by (simp add: genre_record_def genre_record_fields)
  have a: "field r ''name'' \<noteq> Some (VPrim (PStr ''(no genres listed)''))" if rm: "r \<in> set rs" for r
  proof -
    obtain name gn poster where m: "(name, gn, poster) \<in> set (genres_matched g)"
      and r: "r = genre_record gn poster"
      using rm mem by blast
    from m have "property gn ''name'' = Some name" and "name \<noteq> PStr ''(no genres listed)''"
      by (simp_all add: in_genres_matched)
    with r show ?thesis
      by (simp add: genre_record_def genre_record_fields)
  qed
  have b: "\<exists>r\<in>set rs. field r ''name'' = Some (prop_val gn ''name'')"
    if gm: "gn \<in> set (nodes g)" and gl: "listed_genre g gn" for gn
  proof -
    obtain name poster where m: "(name, gn, poster) \<in> set (genres_matched g)"
      using gm gl listed_genre_matched [of gn g] by blast
    then have "genre_record gn poster \<in> set rs"
      using mem by blast
    with name [OF m] show ?thesis
      by blast
  qed
  have c: "\<exists>gn\<in>set (nodes g).
        listed_genre g gn \<and> field r ''name'' = Some (prop_val gn ''name'') \<and>
        (\<exists>(rating, poster)\<in>set (rated_posters g gn).
           field r ''poster'' = Some (VPrim poster) \<and>
           (\<forall>(rating', poster')\<in>set (rated_posters g gn). rating' \<le> rating))"
    if rm: "r \<in> set rs" for r
  proof -
    obtain name gn poster where m: "(name, gn, poster) \<in> set (genres_matched g)"
      and r: "r = genre_record gn poster"
      using rm mem by blast
    from m have l: "gn \<in> set (nodes g)" "listed_genre g gn"
      using listed_genre_matched [of gn g] by blast+
    from m have p: "genre_poster g gn = Some poster"
      by (simp add: in_genres_matched)
    from genre_poster_max [OF p] obtain rating where
      rp: "(rating, poster) \<in> set (rated_posters g gn)"
      and mx: "\<forall>(rating', poster')\<in>set (rated_posters g gn). rating' \<le> rating"
      by blast
    have "\<exists>(rating, poster)\<in>set (rated_posters g gn).
           field r ''poster'' = Some (VPrim poster) \<and>
           (\<forall>(rating', poster')\<in>set (rated_posters g gn). rating' \<le> rating)"
      using rp mx poster [of gn poster] r by (intro bexI [of _ "(rating, poster)"]) simp_all
    with l name [OF m] r show ?thesis
      by blast
  qed
  have d: "sorted_wrt (field_le ''name'') rs"
    unfolding rs_def genre_record_def by (rule genres_sorted)
  show ?thesis
    using call a b c d by blast
qed

theorem genre_listing_witness:
  "crime_node \<in> set (nodes sample_graph) \<and> listed_genre sample_graph crime_node \<and>
   (\<exists>r. fst (get_by_genre_all (neo_tx sample_graph) []) = Inr [r] \<and>
        field r ''name'' = Some (VPrim (PStr ''Crime'')) \<and>
        field r ''name'' \<noteq> Some (VPrim (PStr ''(no genres listed)'')) \<and>
        field r ''poster'' = Some (VPrim (PStr ''godfather.jpg'')))"
proof -
  have c: "crime_node \<in> set (nodes sample_graph)"
    by (simp add: sample_graph_def)
  have l: "listed_genre sample_graph crime_node"
    by (simp add: listed_genre_def sample_rated_posters) (simp add: crime_node_def has_label_def property_def)
  have n: "prop_val crime_node ''name'' = VPrim (PStr ''Crime'')"
    by (simp add: prop_val_def property_def crime_node_def)
  have only: "gn = crime_node" if gm: "gn \<in> set (nodes sample_graph)" and gl: "listed_genre sample_graph gn" for gn
  proof -
    from gm have "gn \<in> {goodfellas_node, godfather_node, pulp_fiction_node,
       \<lparr>nid = 4, labels = [''User''], props = [(''userId'', PStr ''u1'')]\<rparr>,
       crime_node, western_node,
       \<lparr>nid = 7, labels = [''Genre''], props = [(''name'', PStr ''(no genres listed)'')]\<rparr>}"
      by (simp add: sample_graph_def)
    with gl show ?thesis
      by (auto simp: listed_genre_def sample_rated_posters)
         (simp_all add: sample_defs has_label_def property_def)
  qed
  obtain rs where call: "get_by_genre_all (neo_tx sample_graph) [] = (Inr rs, [] @ [(genres_cypher, [])])"
    and a: "\<forall>r\<in>set rs. field r ''name'' \<noteq> Some (VPrim (PStr ''(no genres listed)''))"
    and b: "\<forall>gn\<in>set (nodes sample_graph). listed_genre sample_graph gn \<longrightarrow>
        (\<exists>r\<in>set rs. field r ''name'' = Some (prop_val gn ''name''))"
    and d: "\<forall>r\<in>set rs. \<exists>gn\<in>set (nodes sample_graph).
        listed_genre sample_graph gn \<and> field r ''name'' = Some (prop_val gn ''name'') \<and>
        (\<exists>(rating, poster)\<in>set (rated_posters sample_graph gn).
           field r ''poster'' = Some (VPrim poster) \<and>
           (\<forall>(rating', poster')\<in>set (rated_posters sample_graph gn). rating' \<le> rating))"
    using genre_listing [of sample_graph "[]"] by blast
  have "length rs = 1"
    using call by (simp add: get_by_genre_all_neo_tx sample_genres_matched) auto
  then obtain r where rs: "rs = [r]"
    by (cases rs) auto
  from d rs obtain gn where g1: "gn \<in> set (nodes sample_graph)" and g2: "listed_genre sample_graph gn"
    and g3: "field r ''name'' = Some (prop_val gn ''name'')"
    and g4: "\<exists>(rating, poster)\<in>set (rated_posters sample_graph gn).
           field r ''poster'' = Some (VPrim poster) \<and>
           (\<forall>(rating', poster')\<in>set (rated_posters sample_graph gn). rating' \<le> rating)"
    by auto
  have gn: "gn = crime_node"
    using g1 g2 by (rule only)
  have nm: "field r ''name'' = Some (VPrim (PStr ''Crime''))"
    using g3 gn n by simp
  have ps: "field r ''poster'' = Some (VPrim (PStr ''godfather.jpg''))"
    using g4 unfolding gn sample_rated_posters by auto
  have "field r ''name'' \<noteq> Some (VPrim (PStr ''(no genres listed)''))"
    using a rs by simp
  with nm ps rs call c l show ?thesis
    by auto
qed

end
